theory Spec2Isabelle
  imports Main
begin

section \<open>Data model (types.ts)\<close>

text \<open>
  The four display statuses of \<^verbatim>\<open>WorkflowStatus\<close>. TypeScript writes them as
  the string literals 'success', 'failure', 'pending' and 'unknown'.
\<close>

datatype WorkflowStatus = Success | Failure | Pending | Unknown

text \<open>
  \<^verbatim>\<open>ActionSettings\<close>. The settings arrive as JSON from the host, and a button
  that was never configured has the empty object for its settings: the interface
  declares the credential, owner, repository and interval as present, but each field
  may be absent at run time, and the code guards each read with a truthiness test.
  Every field is therefore an option, \<open>None\<close> the absent field (the value
  \<^verbatim>\<open>undefined\<close>). Whole seconds are modelled as \<open>int\<close>.
\<close>

record ActionSettings =
  githubToken :: "string option"
  owner :: "string option"
  repo :: "string option"
  workflow :: "string option"
  refreshInterval :: "int option"

record WorkflowRun =
  run_id :: int
  run_name :: string
  run_status :: string
  conclusion :: "string option"
  html_url :: string
  created_at :: string
  updated_at :: string
  head_branch :: string
  head_sha :: string

record GitHubActionsResponse =
  total_count :: int
  workflow_runs :: "WorkflowRun list"

record WorkflowStatusResult =
  status :: WorkflowStatus
  name :: string
  url :: string
  branch :: string
  updatedAt :: "string option"
  error :: "string option"

text \<open>
  \<^verbatim>\<open>ActionInstance\<close>. The value \<^verbatim>\<open>setInterval\<close> returns is a Timeout object of
  the runtime, which is always truthy; the model names it by a natural number, its
  handle. \<^verbatim>\<open>keyDownTime\<close> is a \<^verbatim>\<open>Date.now()\<close> reading in milliseconds.
\<close>

record ActionInstance =
  contextId :: string
  settings :: ActionSettings
  refreshTimer :: "nat option"
  keyDownTime :: "int option"

section \<open>JavaScript truthiness and template strings\<close>

text \<open>
  \<^verbatim>\<open>x || d\<close> on a number that may be undefined: \<^verbatim>\<open>undefined\<close> and \<^verbatim>\<open>0\<close> are
  falsy. \<^verbatim>\<open>if (s)\<close> on a string that may be undefined: \<^verbatim>\<open>undefined\<close> and the
  empty string are falsy.
\<close>

definition or_number :: "int option \<Rightarrow> int \<Rightarrow> int" where
  "or_number x d = (case x of None \<Rightarrow> d | Some n \<Rightarrow> if n = 0 then d else n)"

text \<open>
  A string that may be undefined, interpolated in a template string: \<^verbatim>\<open>undefined\<close>
  is rendered as the nine letters of its name.
\<close>

definition template_string :: "string option \<Rightarrow> string" where
  "template_string x = (case x of None \<Rightarrow> ''undefined'' | Some s \<Rightarrow> s)"

section \<open>The status fetcher (github-api.ts)\<close>

subsection \<open>mapGitHubStatus\<close>

definition mapGitHubStatus :: "string \<Rightarrow> string option \<Rightarrow> WorkflowStatus" where
  "mapGitHubStatus st concl =
     (if st = ''completed'' then
        (if concl = Some ''success'' then Success
         else if concl = Some ''failure'' \<or> concl = Some ''cancelled''
                 \<or> concl = Some ''timed_out'' then Failure
         else Unknown)
      else if st = ''in_progress'' \<or> st = ''queued'' \<or> st = ''pending''
              \<or> st = ''waiting'' then Pending
      else Unknown)"

text \<open>
  The classifier as the specification words it (section 4.1, rules 2 to 4): a
  lifecycle and an optional outcome, checked in order, first match wins.
\<close>

definition spec_classify :: "string \<Rightarrow> string option \<Rightarrow> WorkflowStatus" where
  "spec_classify lifecycle outcome =
     (if lifecycle = ''completed'' then
        (case outcome of
           None \<Rightarrow> Unknown
         | Some c \<Rightarrow>
             if c = ''success'' then Success
             else if c \<in> {''failure'', ''cancelled'', ''timed_out''} then Failure
             else Unknown)
      else if lifecycle \<in> {''in_progress'', ''queued'', ''pending'', ''waiting''}
        then Pending
      else Unknown)"

subsection \<open>The request and its outcome\<close>

text \<open>
  The options object \<^verbatim>\<open>getWorkflowRuns\<close> hands to \<^verbatim>\<open>https.request\<close>.
\<close>

record RequestOptions =
  hostname :: string
  port :: nat
  path :: string
  http_method :: string
  headers :: "(string \<times> string) list"

text \<open>
  What the network answers to one request; the first of the three callbacks of
  \<^verbatim>\<open>getWorkflowRuns\<close> that fires settles the promise: the request's 'error'
  event with its message, the 10 s timeout, or the response's 'end' event with the
  status code and the collected body.
\<close>

datatype http_outcome =
    NetError string
  | TimedOut
  | Responded int string

text \<open>
  A thrown value (a promise rejection): an \<^verbatim>\<open>Error\<close> instance with its message,
  or any other value.
\<close>

datatype thrown = ErrorObj string | OtherThrown

text \<open>Decimal rendering of a number in a template string.\<close>

function show_nat :: "nat \<Rightarrow> string" where
  "show_nat n =
     (if n < 10 then [''0123456789'' ! n]
      else show_nat (n div 10) @ [''0123456789'' ! (n mod 10)])"
  by pat_completeness auto
termination
  by (relation "measure id") auto

definition show_int :: "int \<Rightarrow> string" where
  "show_int i = (if i < 0 then ''-'' @ show_nat (nat (- i)) else show_nat (nat i))"

text \<open>
  \<^verbatim>\<open>getWorkflowRuns\<close>, lines 51 to 67: the path and the request options.
\<close>

definition getWorkflowRuns_options ::
  "string \<Rightarrow> string \<Rightarrow> string \<Rightarrow> string option \<Rightarrow> RequestOptions" where
  "getWorkflowRuns_options token own rep wfl =
     (let path0 = ''/repos/'' @ own @ ''/'' @ rep @ ''/actions/runs?per_page=1'';
          path1 = (case wfl of
                     Some w \<Rightarrow>
                       if w \<noteq> [] then
                         ''/repos/'' @ own @ ''/'' @ rep @ ''/actions/workflows/''
                           @ w @ ''/runs?per_page=1''
                       else path0
                   | None \<Rightarrow> path0)
      in \<lparr>hostname = ''api.github.com'', port = 443, path = path1,
          http_method = ''GET'',
          headers = [(''Authorization'', ''Bearer '' @ token),
                     (''Accept'', ''application/vnd.github.v3+json''),
                     (''User-Agent'', ''StreamDeck-GitHub-Action-Status'')]\<rparr>)"

text \<open>
  \<^verbatim>\<open>getWorkflowRuns\<close>, lines 69 to 101: how the promise settles on the outcome
  of the request. \<open>Inl\<close> is a rejection, \<open>Inr\<close> the resolved value.
  \<open>parse\<close> is \<^verbatim>\<open>JSON.parse\<close> followed by the cast to
  \<^verbatim>\<open>GitHubActionsResponse\<close>; \<open>None\<close> is a body on which it throws.
\<close>

definition getWorkflowRuns ::
  "(string \<Rightarrow> GitHubActionsResponse option) \<Rightarrow> http_outcome
     \<Rightarrow> thrown + GitHubActionsResponse" where
  "getWorkflowRuns parse oc =
     (case oc of
        Responded statusCode body \<Rightarrow>
          (if statusCode = 200 then
             (case parse body of
                Some parsed \<Rightarrow> Inr parsed
              | None \<Rightarrow> Inl (ErrorObj ''Failed to parse GitHub response''))
           else if statusCode = 401 then Inl (ErrorObj ''Invalid GitHub token'')
           else if statusCode = 404 then
             Inl (ErrorObj ''Repository or workflow not found'')
           else Inl (ErrorObj (''GitHub API error: '' @ show_int statusCode)))
      | NetError msg \<Rightarrow> Inl (ErrorObj (''Network error: '' @ msg))
      | TimedOut \<Rightarrow> Inl (ErrorObj ''Request timeout''))"

subsection \<open>fetchWorkflowStatus\<close>

text \<open>
  The body of the \<^verbatim>\<open>try\<close> block, lines 11 to 31. Reading
  \<^verbatim>\<open>workflow_runs[0]\<close> of an empty list gives \<^verbatim>\<open>undefined\<close>, and the
  property access on it throws a TypeError.
\<close>

definition fetchWorkflowStatus_try ::
  "(string \<Rightarrow> GitHubActionsResponse option) \<Rightarrow> http_outcome
     \<Rightarrow> string \<Rightarrow> string \<Rightarrow> string option \<Rightarrow> thrown + WorkflowStatusResult" where
  "fetchWorkflowStatus_try parse oc own rep wfl =
     (case getWorkflowRuns parse oc of
        Inl e \<Rightarrow> Inl e
      | Inr runs \<Rightarrow>
          if total_count runs = 0 \<or> length (workflow_runs runs) = 0 then
            Inr \<lparr>status = Unknown,
                 name = (case wfl of
                           Some w \<Rightarrow> if w \<noteq> [] then w else ''No runs''
                         | None \<Rightarrow> ''No runs''),
                 url = ''https://github.com/'' @ own @ ''/'' @ rep @ ''/actions'',
                 branch = [], updatedAt = None,
                 error = Some ''No workflow runs found''\<rparr>
          else
            (case workflow_runs runs of
               [] \<Rightarrow> Inl (ErrorObj ''Cannot read properties of undefined'')
             | latestRun # _ \<Rightarrow>
                 Inr \<lparr>status = mapGitHubStatus (run_status latestRun)
                                 (conclusion latestRun),
                      name = run_name latestRun,
                      url = html_url latestRun,
                      branch = head_branch latestRun,
                      updatedAt = None, error = None\<rparr>))"

text \<open>
  The whole function: the \<^verbatim>\<open>catch\<close> block, lines 32 to 41, turns whatever the
  \<^verbatim>\<open>try\<close> block threw into a result. The value is the settlement of the promise
  the \<^verbatim>\<open>async\<close> function returns: \<open>Inl\<close> rejected, \<open>Inr\<close> resolved.
  \<open>oc\<close> is the outcome of the one request the call issues.
\<close>

definition fetchWorkflowStatus ::
  "(string \<Rightarrow> GitHubActionsResponse option) \<Rightarrow> http_outcome
     \<Rightarrow> string \<Rightarrow> string \<Rightarrow> string \<Rightarrow> string option
     \<Rightarrow> thrown + WorkflowStatusResult" where
  "fetchWorkflowStatus parse oc token own rep wfl =
     (case fetchWorkflowStatus_try parse oc own rep wfl of
        Inr result \<Rightarrow> Inr result
      | Inl e \<Rightarrow>
          (let errorMessage = (case e of ErrorObj m \<Rightarrow> m
                                        | OtherThrown \<Rightarrow> ''Unknown error'')
           in Inr \<lparr>status = Unknown, name = ''Error'',
                   url = ''https://github.com/'' @ own @ ''/'' @ rep @ ''/actions'',
                   branch = [], updatedAt = None,
                   error = Some errorMessage\<rparr>))"

section \<open>The plugin (plugin.ts)\<close>

subsection \<open>State and effects\<close>

text \<open>The \<^verbatim>\<open>readyState\<close> of the WebSocket.\<close>

datatype ReadyState = CONNECTING | OPEN | CLOSING | CLOSED

text \<open>
  The JSON frames the plugin sends: \<^verbatim>\<open>setImage\<close> and \<^verbatim>\<open>setTitle\<close> with
  context, payload and target, and \<^verbatim>\<open>openUrl\<close> with its url.
\<close>

datatype frame =
    SetImage string string nat
  | SetTitle string string nat
  | OpenUrl string

text \<open>
  What the plugin does to the world, in order: a frame written to the socket, a
  request handed to \<^verbatim>\<open>https.request\<close>, a call of \<^verbatim>\<open>setInterval\<close> (handle
  returned, context captured by the callback, delay in milliseconds as passed) and a
  call of \<^verbatim>\<open>clearInterval\<close>.
\<close>

datatype effect =
    WsSend frame
  | HttpsRequest RequestOptions
  | SetIntervalCall nat string int
  | ClearIntervalCall nat

text \<open>
  A call of \<^verbatim>\<open>refreshStatus\<close> suspended at its \<^verbatim>\<open>await\<close>: the context and the
  settings it read before the request went out.
\<close>

record Suspended =
  s_context :: string
  s_githubToken :: string
  s_owner :: string
  s_repo :: string
  s_workflow :: "string option"

text \<open>
  The fields of \<^verbatim>\<open>StreamDeckPlugin\<close>, and with them the part of the runtime the
  handlers act on: the table of live interval timers (handle, context of the callback,
  delay), the next fresh handle, the suspended refreshes in the order they started, and
  the trace of effects.
\<close>

record StreamDeckPlugin =
  websocket :: "ReadyState option"
  actions :: "string \<rightharpoonup> ActionInstance"
  pluginUUID :: string
  imagesCache :: "WorkflowStatus \<rightharpoonup> string"
  timers :: "(nat \<times> string \<times> int) list"
  nextHandle :: nat
  suspended :: "Suspended list"
  trace :: "effect list"

definition LONG_PRESS_THRESHOLD :: int where
  "LONG_PRESS_THRESHOLD = 500"

subsection \<open>Runtime primitives\<close>

definition setInterval :: "StreamDeckPlugin \<Rightarrow> string \<Rightarrow> int \<Rightarrow> nat \<times> StreamDeckPlugin" where
  "setInterval p c delay =
     (nextHandle p,
      p\<lparr>timers := timers p @ [(nextHandle p, c, delay)],
        nextHandle := Suc (nextHandle p),
        trace := trace p @ [SetIntervalCall (nextHandle p) c delay]\<rparr>)"

definition clearInterval :: "StreamDeckPlugin \<Rightarrow> nat \<Rightarrow> StreamDeckPlugin" where
  "clearInterval p h =
     p\<lparr>timers := filter (\<lambda>t. fst t \<noteq> h) (timers p),
       trace := trace p @ [ClearIntervalCall h]\<rparr>"

subsection \<open>Sending and display\<close>

text \<open>
  \<^verbatim>\<open>send\<close> writes a frame only while the socket exists and is open.
  \<^verbatim>\<open>updateDisplay\<close> is the one of plugin.ts, which looks the image up in the cache
  filled at construction and skips the image frame when the cache has none. The
  repository holds a second copy of the plugin whose \<^verbatim>\<open>updateDisplay\<close> renders the
  image on each call instead; its event handlers, timers and refresh are the same.
\<close>

definition send :: "StreamDeckPlugin \<Rightarrow> frame \<Rightarrow> StreamDeckPlugin" where
  "send p data =
     (if websocket p = Some OPEN then p\<lparr>trace := trace p @ [WsSend data]\<rparr> else p)"

definition updateDisplay ::
  "StreamDeckPlugin \<Rightarrow> string \<Rightarrow> WorkflowStatus \<Rightarrow> string \<Rightarrow> StreamDeckPlugin" where
  "updateDisplay p c st title =
     (let p1 = (case imagesCache p st of
                  Some img \<Rightarrow> if img \<noteq> [] then send p (SetImage c img 0) else p
                | None \<Rightarrow> p)
      in send p1 (SetTitle c title 0))"

definition formatStatusText :: "WorkflowStatus \<Rightarrow> string" where
  "formatStatusText st =
     (case st of
        Success \<Rightarrow> ''Success''
      | Failure \<Rightarrow> ''Failed''
      | Pending \<Rightarrow> ''Running''
      | Unknown \<Rightarrow> ''Unknown'')"

definition openGitHub :: "StreamDeckPlugin \<Rightarrow> ActionInstance \<Rightarrow> StreamDeckPlugin" where
  "openGitHub p instance =
     (let s = settings instance;
          url0 = ''https://github.com/'' @ template_string (owner s) @ ''/''
                   @ template_string (repo s) @ ''/actions'';
          url1 = (case workflow s of
                    Some w \<Rightarrow> if w \<noteq> [] then url0 @ ''/workflows/'' @ w else url0
                  | None \<Rightarrow> url0)
      in send p (OpenUrl url1))"

subsection \<open>Refresh\<close>

text \<open>
  \<^verbatim>\<open>refreshStatus\<close> up to its \<^verbatim>\<open>await\<close>, lines 173 to 186: the call of
  \<^verbatim>\<open>fetchWorkflowStatus\<close> runs into \<^verbatim>\<open>getWorkflowRuns\<close>, which hands the request
  to \<^verbatim>\<open>https.request\<close> before the handler returns; the rest of the function waits
  for the outcome. The test \<^verbatim>\<open>!githubToken || !owner || !repo\<close> holds when one of
  the three is absent or empty; past it all three are non-empty strings.
\<close>

definition refreshStatus :: "StreamDeckPlugin \<Rightarrow> string \<Rightarrow> StreamDeckPlugin" where
  "refreshStatus p c =
     (case actions p c of
        None \<Rightarrow> p
      | Some instance \<Rightarrow>
          (let s = settings instance in
           case (githubToken s, owner s, repo s) of
             (Some token, Some own, Some rep) \<Rightarrow>
               if token = [] \<or> own = [] \<or> rep = [] then
                 updateDisplay p c Unknown ''Configure''
               else
                 (let p1 = updateDisplay p c Pending ''Loading...''
                  in p1\<lparr>suspended := suspended p1 @
                            [\<lparr>s_context = c, s_githubToken = token,
                              s_owner = own, s_repo = rep,
                              s_workflow = workflow s\<rparr>],
                        trace := trace p1 @
                            [HttpsRequest (getWorkflowRuns_options token own rep
                               (workflow s))]\<rparr>)
           | _ \<Rightarrow> updateDisplay p c Unknown ''Configure''))"

text \<open>
  \<^verbatim>\<open>refreshStatus\<close> after its \<^verbatim>\<open>await\<close>, lines 188 to 196, on the outcome of
  the request. Were the awaited promise rejected, the function would end there.
\<close>

definition refreshStatus_resume ::
  "(string \<Rightarrow> GitHubActionsResponse option) \<Rightarrow> StreamDeckPlugin \<Rightarrow> Suspended
     \<Rightarrow> http_outcome \<Rightarrow> StreamDeckPlugin" where
  "refreshStatus_resume parse p k oc =
     (case fetchWorkflowStatus parse oc (s_githubToken k) (s_owner k) (s_repo k)
             (s_workflow k) of
        Inl e \<Rightarrow> p
      | Inr result \<Rightarrow>
          (let displayText =
                 (case error result of
                    Some e \<Rightarrow> if e \<noteq> [] then ''Error''
                              else formatStatusText (status result)
                  | None \<Rightarrow> formatStatusText (status result))
           in updateDisplay p (s_context k) (status result) displayText))"

subsection \<open>Timers\<close>

definition getDefaultSettings :: ActionSettings where
  "getDefaultSettings =
     \<lparr>githubToken = Some [], owner = Some [], repo = Some [], workflow = Some [],
      refreshInterval = Some 60\<rparr>"

definition startRefreshTimer :: "StreamDeckPlugin \<Rightarrow> string \<Rightarrow> StreamDeckPlugin" where
  "startRefreshTimer p c =
     (case actions p c of
        None \<Rightarrow> p
      | Some instance \<Rightarrow>
          (let interval = or_number (refreshInterval (settings instance)) 60 * 1000;
               (h, p1) = setInterval p c interval
           in p1\<lparr>actions := (actions p1)(c \<mapsto> instance\<lparr>refreshTimer := Some h\<rparr>)\<rparr>))"

definition stopRefreshTimer :: "StreamDeckPlugin \<Rightarrow> string \<Rightarrow> StreamDeckPlugin" where
  "stopRefreshTimer p c =
     (case actions p c of
        None \<Rightarrow> p
      | Some instance \<Rightarrow>
          (case refreshTimer instance of
             None \<Rightarrow> p
           | Some h \<Rightarrow>
               (let p1 = clearInterval p h
                in p1\<lparr>actions := (actions p1)(c \<mapsto> instance\<lparr>refreshTimer := None\<rparr>)\<rparr>)))"

subsection \<open>Event handlers\<close>

definition handleWillAppear ::
  "StreamDeckPlugin \<Rightarrow> string \<Rightarrow> ActionSettings option \<Rightarrow> StreamDeckPlugin" where
  "handleWillAppear p c payload_settings =
     (let settings0 = (case payload_settings of
                         Some s \<Rightarrow> s
                       | None \<Rightarrow> getDefaultSettings);
          instance = \<lparr>contextId = c, settings = settings0,
                      refreshTimer = None, keyDownTime = None\<rparr>;
          p1 = p\<lparr>actions := (actions p)(c \<mapsto> instance)\<rparr>;
          p2 = startRefreshTimer p1 c
      in refreshStatus p2 c)"

definition handleWillDisappear :: "StreamDeckPlugin \<Rightarrow> string \<Rightarrow> StreamDeckPlugin" where
  "handleWillDisappear p c =
     (let p1 = (case actions p c of
                  None \<Rightarrow> p
                | Some instance \<Rightarrow>
                    (case refreshTimer instance of
                       None \<Rightarrow> p
                     | Some h \<Rightarrow> clearInterval p h))
      in p1\<lparr>actions := (actions p1)(c := None)\<rparr>)"

text \<open>\<open>now\<close> is the reading of \<^verbatim>\<open>Date.now()\<close> in the handler.\<close>

definition handleKeyDown :: "StreamDeckPlugin \<Rightarrow> int \<Rightarrow> string \<Rightarrow> StreamDeckPlugin" where
  "handleKeyDown p now c =
     (case actions p c of
        None \<Rightarrow> p
      | Some instance \<Rightarrow>
          p\<lparr>actions := (actions p)(c \<mapsto> instance\<lparr>keyDownTime := Some now\<rparr>)\<rparr>)"

text \<open>
  Neither \<^verbatim>\<open>openGitHub\<close> nor \<^verbatim>\<open>refreshStatus\<close> writes to the instance, so the
  object whose \<^verbatim>\<open>keyDownTime\<close> is cleared at the end is the one read at the start.
\<close>

definition handleKeyUp :: "StreamDeckPlugin \<Rightarrow> int \<Rightarrow> string \<Rightarrow> StreamDeckPlugin" where
  "handleKeyUp p now c =
     (case actions p c of
        None \<Rightarrow> p
      | Some instance \<Rightarrow>
          (let pressDuration = now - or_number (keyDownTime instance) 0;
               p1 = (if pressDuration \<ge> LONG_PRESS_THRESHOLD
                     then openGitHub p instance
                     else refreshStatus p c)
           in p1\<lparr>actions := (actions p1)(c \<mapsto> instance\<lparr>keyDownTime := None\<rparr>)\<rparr>))"

definition handleDidReceiveSettings ::
  "StreamDeckPlugin \<Rightarrow> string \<Rightarrow> ActionSettings \<Rightarrow> StreamDeckPlugin" where
  "handleDidReceiveSettings p c new_settings =
     (case actions p c of
        None \<Rightarrow> p
      | Some instance \<Rightarrow>
          (let p1 = p\<lparr>actions := (actions p)(c \<mapsto> instance\<lparr>settings := new_settings\<rparr>)\<rparr>;
               p2 = stopRefreshTimer p1 c;
               p3 = startRefreshTimer p2 c
           in refreshStatus p3 c))"

subsection \<open>Dispatch\<close>

text \<open>
  The messages \<^verbatim>\<open>handleMessage\<close> acts on, and the three kinds of event the
  runtime delivers to the plugin, each run to completion: a message from the host
  (with the clock reading), an interval timer firing, and the request of a suspended
  refresh settling.
\<close>

datatype message =
    WillAppear string "ActionSettings option"
  | WillDisappear string
  | KeyDown string
  | KeyUp string
  | DidReceiveSettings string ActionSettings
  | OtherEvent string

definition handleMessage :: "StreamDeckPlugin \<Rightarrow> int \<Rightarrow> message \<Rightarrow> StreamDeckPlugin" where
  "handleMessage p now m =
     (case m of
        WillAppear c payload_settings \<Rightarrow> handleWillAppear p c payload_settings
      | WillDisappear c \<Rightarrow> handleWillDisappear p c
      | KeyDown c \<Rightarrow> handleKeyDown p now c
      | KeyUp c \<Rightarrow> handleKeyUp p now c
      | DidReceiveSettings c new_settings \<Rightarrow> handleDidReceiveSettings p c new_settings
      | OtherEvent c \<Rightarrow> p)"

datatype event =
    Message int message
  | TimerFired nat
  | FetchSettled nat http_outcome

definition step ::
  "(string \<Rightarrow> GitHubActionsResponse option) \<Rightarrow> StreamDeckPlugin \<Rightarrow> event
     \<Rightarrow> StreamDeckPlugin" where
  "step parse p ev =
     (case ev of
        Message now m \<Rightarrow> handleMessage p now m
      | TimerFired h \<Rightarrow>
          (case find (\<lambda>t. fst t = h) (timers p) of
             None \<Rightarrow> p
           | Some t \<Rightarrow> refreshStatus p (fst (snd t)))
      | FetchSettled i oc \<Rightarrow>
          (if i < length (suspended p) then
             refreshStatus_resume parse
               (p\<lparr>suspended := take i (suspended p) @ drop (Suc i) (suspended p)\<rparr>)
               (suspended p ! i) oc
           else p))"

definition run ::
  "(string \<Rightarrow> GitHubActionsResponse option) \<Rightarrow> StreamDeckPlugin \<Rightarrow> event list
     \<Rightarrow> StreamDeckPlugin" where
  "run parse p evs = foldl (step parse) p evs"

section \<open>Observations and sample inputs\<close>

text \<open>
  What an observer sees of a trace: the requests that went out, the frames written to
  the socket, the urls of the open-url frames among them, and the timer calls.
\<close>

fun requests_of :: "effect list \<Rightarrow> RequestOptions list" where
  "requests_of [] = []"
| "requests_of (HttpsRequest r # es) = r # requests_of es"
| "requests_of (_ # es) = requests_of es"

fun frames_of :: "effect list \<Rightarrow> frame list" where
  "frames_of [] = []"
| "frames_of (WsSend f # es) = f # frames_of es"
| "frames_of (_ # es) = frames_of es"

fun opened_urls :: "effect list \<Rightarrow> string list" where
  "opened_urls [] = []"
| "opened_urls (WsSend (OpenUrl u) # es) = u # opened_urls es"
| "opened_urls (_ # es) = opened_urls es"

fun timer_calls :: "effect list \<Rightarrow> effect list" where
  "timer_calls [] = []"
| "timer_calls (SetIntervalCall h c d # es) = SetIntervalCall h c d # timer_calls es"
| "timer_calls (ClearIntervalCall h # es) = ClearIntervalCall h # timer_calls es"
| "timer_calls (_ # es) = timer_calls es"

text \<open>
  The result the specification promises when a fetch fails (section 4.2): a resolved
  StatusResult with classification unknown, the given non-empty error text, and the
  url of the repository's general run list.
\<close>

definition spec_failure_result ::
  "string \<Rightarrow> string \<Rightarrow> string \<Rightarrow> thrown + WorkflowStatusResult \<Rightarrow> bool" where
  "spec_failure_result own rep msg x =
     (case x of
        Inl e \<Rightarrow> False
      | Inr r \<Rightarrow> status r = Unknown \<and> error r = Some msg \<and> msg \<noteq> []
                 \<and> url r = ''https://github.com/'' @ own @ ''/'' @ rep @ ''/actions'')"

text \<open>
  Sample inputs: settings for the repository acme/widgets, a plugin that is connected
  and has loaded its four images but has no session yet, and a provider answer with
  one successful run.
\<close>

definition acme_settings :: ActionSettings where
  "acme_settings =
     \<lparr>githubToken = Some ''t0ken'', owner = Some ''acme'', repo = Some ''widgets'',
      workflow = None, refreshInterval = Some 30\<rparr>"

text \<open>The empty object, the settings of a button that was never configured.\<close>

definition blank_settings :: ActionSettings where
  "blank_settings =
     \<lparr>githubToken = None, owner = None, repo = None, workflow = None,
      refreshInterval = None\<rparr>"

definition fresh_plugin :: StreamDeckPlugin where
  "fresh_plugin =
     \<lparr>websocket = Some OPEN, actions = Map.empty, pluginUUID = ''plugin'',
      imagesCache = [Success \<mapsto> ''data:success'', Failure \<mapsto> ''data:failure'',
                     Pending \<mapsto> ''data:pending'', Unknown \<mapsto> ''data:unknown''],
      timers = [], nextHandle = 0, suspended = [], trace = []\<rparr>"

definition acme_run :: WorkflowRun where
  "acme_run =
     \<lparr>run_id = 42, run_name = ''CI'', run_status = ''completed'',
      conclusion = Some ''success'',
      html_url = ''https://github.com/acme/widgets/actions/runs/42'',
      created_at = ''2024-01-01T00:00:00Z'', updated_at = ''2024-01-01T00:05:00Z'',
      head_branch = ''main'', head_sha = ''abc123''\<rparr>"

definition acme_parse :: "string \<Rightarrow> GitHubActionsResponse option" where
  "acme_parse body =
     (if body = ''one'' then Some \<lparr>total_count = 1, workflow_runs = [acme_run]\<rparr>
      else if body = ''none'' then Some \<lparr>total_count = 0, workflow_runs = []\<rparr>
      else None)"

text \<open>
  The plugin after the button ''btn'' appeared with the acme settings, and after it
  appeared with no settings at all.
\<close>

definition acme_plugin :: StreamDeckPlugin where
  "acme_plugin = handleWillAppear fresh_plugin ''btn'' (Some acme_settings)"

definition unconfigured_plugin :: StreamDeckPlugin where
  "unconfigured_plugin = handleWillAppear fresh_plugin ''btn'' None"

text \<open>The plugin after the button appeared with the empty object for its settings.\<close>

definition blank_plugin :: StreamDeckPlugin where
  "blank_plugin = handleWillAppear fresh_plugin ''btn'' (Some blank_settings)"

text \<open>
  A session of events: the button appears, the first fetch answers with one successful
  run, and the key is held for 600 ms.
\<close>

definition acme_session :: "event list" where
  "acme_session =
     [Message 0 (WillAppear ''btn'' (Some acme_settings)),
      FetchSettled 0 (Responded 200 ''one''),
      Message 1000 (KeyDown ''btn''),
      Message 1600 (KeyUp ''btn'')]"

text \<open>Two appear events for one context, with no disappear event between them.\<close>

definition double_appear :: "event list" where
  "double_appear =
     [Message 0 (WillAppear ''btn'' (Some acme_settings)),
      Message 1 (WillAppear ''btn'' (Some acme_settings))]"

text \<open>
  Every session of the map records a timer handle, and the runtime issued that handle
  before: an invariant of the states the plugin reaches.
\<close>

definition handles_issued :: "StreamDeckPlugin \<Rightarrow> bool" where
  "handles_issued p =
     (\<forall>c i. actions p c = Some i \<longrightarrow> (\<exists>h. refreshTimer i = Some h \<and> h < nextHandle p))"

section \<open>Auxiliary facts\<close>

subsection \<open>Observations distribute over a trace\<close>

lemma requests_of_append [simp]:
  "requests_of (xs @ ys) = requests_of xs @ requests_of ys"
  by (induction xs rule: requests_of.induct) simp_all

lemma frames_of_append [simp]:
  "frames_of (xs @ ys) = frames_of xs @ frames_of ys"
  by (induction xs rule: frames_of.induct) simp_all

lemma opened_urls_append [simp]:
  "opened_urls (xs @ ys) = opened_urls xs @ opened_urls ys"
  by (induction xs rule: opened_urls.induct) simp_all

lemma timer_calls_append [simp]:
  "timer_calls (xs @ ys) = timer_calls xs @ timer_calls ys"
  by (induction xs rule: timer_calls.induct) simp_all

subsection \<open>What each operation leaves alone\<close>

lemma send_fields [simp]:
  "websocket (send p f) = websocket p"
  "actions (send p f) = actions p"
  "imagesCache (send p f) = imagesCache p"
  "timers (send p f) = timers p"
  "nextHandle (send p f) = nextHandle p"
  "suspended (send p f) = suspended p"
  "trace (send p f) = trace p @ (if websocket p = Some OPEN then [WsSend f] else [])"
  by (simp_all add: send_def)

lemma updateDisplay_fields [simp]:
  "websocket (updateDisplay p c st title) = websocket p"
  "actions (updateDisplay p c st title) = actions p"
  "imagesCache (updateDisplay p c st title) = imagesCache p"
  "timers (updateDisplay p c st title) = timers p"
  "nextHandle (updateDisplay p c st title) = nextHandle p"
  "suspended (updateDisplay p c st title) = suspended p"
  by (simp_all add: updateDisplay_def Let_def split: option.split)

text \<open>
  One display update on an open socket writes the image frame of the status, when the
  cache holds one, and then the title frame; on a socket that is not open it writes
  nothing.
\<close>

lemma updateDisplay_trace:
  "trace (updateDisplay p c st title) =
     trace p @ (if websocket p = Some OPEN
                then (case imagesCache p st of
                        Some img \<Rightarrow> if img \<noteq> [] then [WsSend (SetImage c img 0)] else []
                      | None \<Rightarrow> []) @ [WsSend (SetTitle c title 0)]
                else [])"
  by (simp add: updateDisplay_def Let_def split: option.split)

lemma updateDisplay_observed [simp]:
  "requests_of (trace (updateDisplay p c st title)) = requests_of (trace p)"
  "opened_urls (trace (updateDisplay p c st title)) = opened_urls (trace p)"
  "timer_calls (trace (updateDisplay p c st title)) = timer_calls (trace p)"
  by (simp_all add: updateDisplay_trace split: option.split)

lemma refreshStatus_fields [simp]:
  "websocket (refreshStatus p c) = websocket p"
  "actions (refreshStatus p c) = actions p"
  "imagesCache (refreshStatus p c) = imagesCache p"
  "timers (refreshStatus p c) = timers p"
  "nextHandle (refreshStatus p c) = nextHandle p"
  "opened_urls (trace (refreshStatus p c)) = opened_urls (trace p)"
  "timer_calls (trace (refreshStatus p c)) = timer_calls (trace p)"
  by (simp_all add: refreshStatus_def Let_def split: option.split)

lemma refreshStatus_resume_fields [simp]:
  "actions (refreshStatus_resume parse p k oc) = actions p"
  "nextHandle (refreshStatus_resume parse p k oc) = nextHandle p"
  "timers (refreshStatus_resume parse p k oc) = timers p"
  by (simp_all add: refreshStatus_resume_def Let_def split: sum.split option.split)

lemma openGitHub_fields [simp]:
  "websocket (openGitHub p i) = websocket p"
  "actions (openGitHub p i) = actions p"
  "imagesCache (openGitHub p i) = imagesCache p"
  "timers (openGitHub p i) = timers p"
  "nextHandle (openGitHub p i) = nextHandle p"
  "suspended (openGitHub p i) = suspended p"
  "requests_of (trace (openGitHub p i)) = requests_of (trace p)"
  "timer_calls (trace (openGitHub p i)) = timer_calls (trace p)"
  by (simp_all add: openGitHub_def Let_def)

lemma suspended_update_same:
  "suspended q = xs \<Longrightarrow> q\<lparr>suspended := xs\<rparr> = q"
  by auto

subsection \<open>The fetcher\<close>

lemma fetch_resolves:
  "\<exists>result. fetchWorkflowStatus parse oc token own rep wfl = Inr result"
  by (simp add: fetchWorkflowStatus_def split: sum.split)

text \<open>An error text, where the result carries one, is never the empty string.\<close>

lemma fetch_error_nonempty:
  "fetchWorkflowStatus parse oc token own rep wfl = Inr result \<Longrightarrow> error result \<noteq> Some []"
  by (auto simp add: fetchWorkflowStatus_def fetchWorkflowStatus_try_def
      getWorkflowRuns_def Let_def
      split: sum.splits http_outcome.splits if_splits option.splits list.splits
        thrown.splits)

lemma refreshStatus_resume_eq:
  assumes "fetchWorkflowStatus parse oc (s_githubToken k) (s_owner k) (s_repo k)
             (s_workflow k) = Inr result"
  shows "refreshStatus_resume parse q k oc =
           updateDisplay q (s_context k) (status result)
             (if error result \<noteq> None then ''Error''
              else formatStatusText (status result))"
  using assms fetch_error_nonempty [OF assms]
  by (auto simp add: refreshStatus_resume_def split: option.split)

subsection \<open>Timers\<close>

lemma startRefreshTimer_eq:
  assumes "actions p c = Some instance"
  shows "startRefreshTimer p c =
           p\<lparr>timers := timers p @ [(nextHandle p, c,
                   (case refreshInterval (settings instance) of
                      None \<Rightarrow> 60 | Some n \<Rightarrow> if n = 0 then 60 else n) * 1000)],
             nextHandle := Suc (nextHandle p),
             trace := trace p @ [SetIntervalCall (nextHandle p) c
                   ((case refreshInterval (settings instance) of
                      None \<Rightarrow> 60 | Some n \<Rightarrow> if n = 0 then 60 else n) * 1000)],
             actions := (actions p)(c \<mapsto> instance\<lparr>refreshTimer := Some (nextHandle p)\<rparr>)\<rparr>"
  using assms
  by (simp add: startRefreshTimer_def setInterval_def or_number_def Let_def
      split: option.split)

lemma handleDidReceiveSettings_eq:
  assumes "actions p c = Some instance"
      and "refreshTimer instance = Some h"
  shows "handleDidReceiveSettings p c new_settings =
           refreshStatus
             (p\<lparr>timers := filter (\<lambda>t. fst t \<noteq> h) (timers p) @
                  [(nextHandle p, c,
                    (case refreshInterval new_settings of
                       None \<Rightarrow> 60 | Some n \<Rightarrow> if n = 0 then 60 else n) * 1000)],
                nextHandle := Suc (nextHandle p),
                trace := trace p @
                  [ClearIntervalCall h,
                   SetIntervalCall (nextHandle p) c
                     ((case refreshInterval new_settings of
                         None \<Rightarrow> 60 | Some n \<Rightarrow> if n = 0 then 60 else n) * 1000)],
                actions := (actions p)(c \<mapsto> instance\<lparr>settings := new_settings,
                     refreshTimer := Some (nextHandle p)\<rparr>)\<rparr>) c"
  using assms
  by (simp add: handleDidReceiveSettings_def stopRefreshTimer_def clearInterval_def
      startRefreshTimer_eq Let_def)

subsection \<open>Handles are issued before they are recorded\<close>

lemma handles_issued_refresh:
  "handles_issued (refreshStatus p c) = handles_issued p"
  by (simp add: handles_issued_def)

lemma handles_issued_resume:
  "handles_issued (refreshStatus_resume parse p k oc) = handles_issued p"
  by (simp add: handles_issued_def)

lemma handles_issued_suspended:
  "handles_issued (p\<lparr>suspended := xs\<rparr>) = handles_issued p"
  by (simp add: handles_issued_def)

lemma handles_issued_start:
  assumes "\<forall>c' j. c' \<noteq> c \<longrightarrow> actions p c' = Some j \<longrightarrow>
             (\<exists>h. refreshTimer j = Some h \<and> h < nextHandle p)"
      and "actions p c = Some i"
  shows "handles_issued (startRefreshTimer p c)"
  using assms
  by (auto simp add: handles_issued_def startRefreshTimer_eq less_Suc_eq
      split: if_splits)

lemma handles_issued_appear:
  assumes "handles_issued p"
  shows "handles_issued (handleWillAppear p c ps)"
proof -
  let ?i = "\<lparr>contextId = c,
             settings = (case ps of Some s \<Rightarrow> s | None \<Rightarrow> getDefaultSettings),
             refreshTimer = None, keyDownTime = None\<rparr>"
  let ?p1 = "p\<lparr>actions := (actions p)(c \<mapsto> ?i)\<rparr>"
  have "handles_issued (startRefreshTimer ?p1 c)"
    using assms
    by (intro handles_issued_start [where i = ?i]) (simp_all add: handles_issued_def)
  then show ?thesis
    by (simp add: handleWillAppear_def Let_def handles_issued_refresh)
qed

lemma handles_issued_settings:
  assumes "handles_issued p"
  shows "handles_issued (handleDidReceiveSettings p c s)"
proof (cases "actions p c")
  case None
  then show ?thesis using assms by (simp add: handleDidReceiveSettings_def)
next
  case (Some i)
  let ?p2 = "stopRefreshTimer (p\<lparr>actions := (actions p)(c \<mapsto> i\<lparr>settings := s\<rparr>)\<rparr>) c"
  have "\<exists>j. actions ?p2 c = Some j"
    by (cases "refreshTimer i")
      (simp_all add: stopRefreshTimer_def clearInterval_def Let_def)
  then obtain j where j: "actions ?p2 c = Some j" ..
  have "handles_issued (startRefreshTimer ?p2 c)"
    using assms Some
    by (intro handles_issued_start [OF _ j])
      (auto simp add: handles_issued_def stopRefreshTimer_def clearInterval_def
        split: option.splits)
  then show ?thesis
    using Some by (simp add: handleDidReceiveSettings_def Let_def handles_issued_refresh)
qed

lemma handles_issued_message:
  assumes "handles_issued p"
  shows "handles_issued (handleMessage p now m)"
proof (cases m)
  case (WillAppear c ps)
  then show ?thesis
    using assms by (simp add: handleMessage_def handles_issued_appear)
next
  case (WillDisappear c)
  then show ?thesis
    using assms
    by (auto simp add: handleMessage_def handleWillDisappear_def Let_def clearInterval_def
        handles_issued_def split: option.splits if_splits)
next
  case (KeyDown c)
  then show ?thesis
    using assms
    by (auto simp add: handleMessage_def handleKeyDown_def handles_issued_def
        split: option.splits if_splits)
next
  case (KeyUp c)
  then show ?thesis
    using assms
    by (auto simp add: handleMessage_def handleKeyUp_def Let_def handles_issued_def
        split: option.splits if_splits)
next
  case (DidReceiveSettings c s)
  then show ?thesis
    using assms by (simp add: handleMessage_def handles_issued_settings)
next
  case (OtherEvent c)
  then show ?thesis using assms by (simp add: handleMessage_def)
qed

lemma handles_issued_step:
  "handles_issued p \<Longrightarrow> handles_issued (step parse p ev)"
  by (cases ev)
    (simp_all add: step_def handles_issued_message handles_issued_refresh
      handles_issued_resume handles_issued_suspended split: option.split)

text \<open>Every state the plugin reaches from its start satisfies the invariant.\<close>

lemma handles_issued_run:
  "handles_issued (run parse fresh_plugin evs)"
proof -
  have "handles_issued p \<Longrightarrow> handles_issued (foldl (step parse) p evs)" for p
    by (induction evs arbitrary: p) (simp_all add: handles_issued_step)
  moreover have "handles_issued fresh_plugin"
    by (simp add: handles_issued_def fresh_plugin_def)
  ultimately show ?thesis by (simp add: run_def)
qed

subsection \<open>The sample states, evaluated\<close>

lemmas handler_defs =
  handleWillAppear_def handleWillDisappear_def handleKeyDown_def handleKeyUp_def
  handleDidReceiveSettings_def startRefreshTimer_def stopRefreshTimer_def
  setInterval_def clearInterval_def refreshStatus_def updateDisplay_def send_def
  openGitHub_def or_number_def LONG_PRESS_THRESHOLD_def getDefaultSettings_def
  template_string_def

lemmas run_defs =
  run_def step_def handleMessage_def refreshStatus_resume_def
  fetchWorkflowStatus_def fetchWorkflowStatus_try_def getWorkflowRuns_def
  mapGitHubStatus_def formatStatusText_def acme_parse_def acme_run_def

lemma acme_plugin_fields:
  "actions acme_plugin ''btn'' =
     Some \<lparr>contextId = ''btn'', settings = acme_settings, refreshTimer = Some 0,
           keyDownTime = None\<rparr>"
  "actions acme_plugin ''other'' = None"
  "websocket acme_plugin = Some OPEN"
  "timers acme_plugin = [(0, ''btn'', 30000)]"
  "nextHandle acme_plugin = 1"
  "suspended acme_plugin =
     [\<lparr>s_context = ''btn'', s_githubToken = ''t0ken'', s_owner = ''acme'',
       s_repo = ''widgets'', s_workflow = None\<rparr>]"
  "imagesCache acme_plugin Pending = Some ''data:pending''"
  "imagesCache acme_plugin Success = Some ''data:success''"
  by (simp_all add: acme_plugin_def fresh_plugin_def acme_settings_def handler_defs)

lemma acme_plugin_trace:
  "trace acme_plugin =
     [SetIntervalCall 0 ''btn'' 30000,
      WsSend (SetImage ''btn'' ''data:pending'' 0),
      WsSend (SetTitle ''btn'' ''Loading...'' 0),
      HttpsRequest (getWorkflowRuns_options ''t0ken'' ''acme'' ''widgets'' None)]"
  by (simp add: acme_plugin_def fresh_plugin_def acme_settings_def handler_defs)

lemma unconfigured_plugin_fields:
  "actions unconfigured_plugin ''btn'' =
     Some \<lparr>contextId = ''btn'', settings = getDefaultSettings, refreshTimer = Some 0,
           keyDownTime = None\<rparr>"
  "timers unconfigured_plugin = [(0, ''btn'', 60000)]"
  "suspended unconfigured_plugin = []"
  "trace unconfigured_plugin =
     [SetIntervalCall 0 ''btn'' 60000,
      WsSend (SetImage ''btn'' ''data:unknown'' 0),
      WsSend (SetTitle ''btn'' ''Configure'' 0)]"
  "websocket unconfigured_plugin = Some OPEN"
  "imagesCache unconfigured_plugin Unknown = Some ''data:unknown''"
  by (simp_all add: unconfigured_plugin_def fresh_plugin_def handler_defs)

lemma blank_plugin_fields:
  "actions blank_plugin ''btn'' =
     Some \<lparr>contextId = ''btn'', settings = blank_settings, refreshTimer = Some 0,
           keyDownTime = None\<rparr>"
  "timers blank_plugin = [(0, ''btn'', 60000)]"
  "suspended blank_plugin = []"
  "trace blank_plugin =
     [SetIntervalCall 0 ''btn'' 60000,
      WsSend (SetImage ''btn'' ''data:unknown'' 0),
      WsSend (SetTitle ''btn'' ''Configure'' 0)]"
  "websocket blank_plugin = Some OPEN"
  "imagesCache blank_plugin Unknown = Some ''data:unknown''"
  by (simp_all add: blank_plugin_def blank_settings_def fresh_plugin_def handler_defs)

lemma pressed_plugin_fields:
  "actions (handleKeyDown acme_plugin 1000 ''btn'') ''btn'' =
     Some \<lparr>contextId = ''btn'', settings = acme_settings, refreshTimer = Some 0,
           keyDownTime = Some 1000\<rparr>"
  "websocket (handleKeyDown acme_plugin 1000 ''btn'') = Some OPEN"
  "trace (handleKeyDown acme_plugin 1000 ''btn'') = trace acme_plugin"
  by (simp_all add: handleKeyDown_def acme_plugin_fields)

lemma pressed_blank_fields:
  "actions (handleKeyDown blank_plugin 1000 ''btn'') ''btn'' =
     Some \<lparr>contextId = ''btn'', settings = blank_settings, refreshTimer = Some 0,
           keyDownTime = Some 1000\<rparr>"
  "websocket (handleKeyDown blank_plugin 1000 ''btn'') = Some OPEN"
  "trace (handleKeyDown blank_plugin 1000 ''btn'') = trace blank_plugin"
  by (simp_all add: handleKeyDown_def blank_plugin_fields)

section \<open>Claims\<close>

text \<open>
  C1. The status classifier of the code is exactly the order-sensitive total map of
  the specification: on every lifecycle string and every outcome (a string or null)
  \<open>mapGitHubStatus\<close> returns what \<open>spec_classify\<close> returns.
\<close>

theorem C1_mapGitHubStatus_is_spec_map:
  "mapGitHubStatus lifecycle outcome = spec_classify lifecycle outcome"
  by (cases outcome) (simp_all add: mapGitHubStatus_def spec_classify_def)

text \<open>
  C2. \<open>fetchWorkflowStatus\<close> never throws: on every parser, outcome of the request,
  token, owner, repository and optional workflow, the promise it returns resolves.
  A transport failure, the timeout, a 401, a 404, any other non-200 status and a 200
  whose body does not parse are each turned into a result with classification unknown,
  the non-empty error text of that case, and the url of the repository's general
  actions run list.
\<close>

theorem C2_fetchWorkflowStatus_never_throws:
  "(\<exists>r. fetchWorkflowStatus parse oc token own rep wfl = Inr r)
   \<and> spec_failure_result own rep (''Network error: '' @ m)
       (fetchWorkflowStatus parse (NetError m) token own rep wfl)
   \<and> spec_failure_result own rep ''Request timeout''
       (fetchWorkflowStatus parse TimedOut token own rep wfl)
   \<and> spec_failure_result own rep ''Invalid GitHub token''
       (fetchWorkflowStatus parse (Responded 401 body) token own rep wfl)
   \<and> spec_failure_result own rep ''Repository or workflow not found''
       (fetchWorkflowStatus parse (Responded 404 body) token own rep wfl)
   \<and> (code \<notin> {200, 401, 404} \<longrightarrow>
        spec_failure_result own rep (''GitHub API error: '' @ show_int code)
          (fetchWorkflowStatus parse (Responded code body) token own rep wfl))
   \<and> (parse body = None \<longrightarrow>
        spec_failure_result own rep ''Failed to parse GitHub response''
          (fetchWorkflowStatus parse (Responded 200 body) token own rep wfl))"
  by (simp add: fetchWorkflowStatus_def fetchWorkflowStatus_try_def getWorkflowRuns_def
      spec_failure_result_def split: sum.split)

text \<open>
  The theorem of C2 at a 500 answer and at a 200 answer whose body does not parse.
\<close>

theorem C2_fetchWorkflowStatus_never_throws_witness:
  "(500::int) \<notin> {200, 401, 404}
   \<and> spec_failure_result ''acme'' ''widgets'' (''GitHub API error: '' @ show_int 500)
          (fetchWorkflowStatus acme_parse (Responded 500 ''{'') ''t0ken'' ''acme''
             ''widgets'' None)
   \<and> acme_parse ''{'' = None
   \<and> spec_failure_result ''acme'' ''widgets'' ''Failed to parse GitHub response''
          (fetchWorkflowStatus acme_parse (Responded 200 ''{'') ''t0ken'' ''acme''
             ''widgets'' None)"
proof -
  have h1: "(500::int) \<notin> {200, 401, 404}" by simp
  have h2: "acme_parse ''{'' = None" by (simp add: acme_parse_def)
  show ?thesis
    using h1 h2
      C2_fetchWorkflowStatus_never_throws [of acme_parse "Responded 500 ''{''"
        "''t0ken''" "''acme''" "''widgets''" None "''x''" "''{''" 500]
    by simp
qed

text \<open>
  C3, as amended. A press-end for a context that has no session is ignored. For a
  session that exists, the press is measured from the recorded press timestamp, or
  from 0 when none is recorded: an elapsed time below 500 ms runs a refresh, one of
  500 ms or more opens the url; in both cases the recorded timestamp is cleared.
\<close>

theorem C3_press_end_classification:
  "(actions p c = None \<longrightarrow> handleKeyUp p now c = p)
   \<and> (actions p c = Some instance \<longrightarrow>
        (let elapsed = now - (case keyDownTime instance of None \<Rightarrow> 0 | Some t \<Rightarrow> t)
         in (elapsed < 500 \<longrightarrow>
               handleKeyUp p now c =
                 (refreshStatus p c)
                   \<lparr>actions := (actions p)(c \<mapsto> instance\<lparr>keyDownTime := None\<rparr>)\<rparr>)
          \<and> (elapsed \<ge> 500 \<longrightarrow>
               handleKeyUp p now c =
                 (openGitHub p instance)
                   \<lparr>actions := (actions p)(c \<mapsto> instance\<lparr>keyDownTime := None\<rparr>)\<rparr>)
          \<and> map_option keyDownTime (actions (handleKeyUp p now c) c) = Some None))"
  by (auto simp add: handleKeyUp_def Let_def or_number_def LONG_PRESS_THRESHOLD_def
      split: option.split)

text \<open>
  The theorem of C3 on the pressed button, released after 200 ms and after 600 ms, and
  on a context that has no session.
\<close>

theorem C3_press_end_classification_witness:
  "actions (handleKeyDown acme_plugin 1000 ''btn'') ''btn'' =
     Some \<lparr>contextId = ''btn'', settings = acme_settings, refreshTimer = Some 0,
           keyDownTime = Some 1000\<rparr>
   \<and> (1200::int) - 1000 < 500
   \<and> handleKeyUp (handleKeyDown acme_plugin 1000 ''btn'') 1200 ''btn'' =
       (refreshStatus (handleKeyDown acme_plugin 1000 ''btn'') ''btn'')
         \<lparr>actions := (actions (handleKeyDown acme_plugin 1000 ''btn''))
            (''btn'' \<mapsto> \<lparr>contextId = ''btn'', settings = acme_settings,
                refreshTimer = Some 0, keyDownTime = None\<rparr>)\<rparr>
   \<and> (1600::int) - 1000 \<ge> 500
   \<and> handleKeyUp (handleKeyDown acme_plugin 1000 ''btn'') 1600 ''btn'' =
       (openGitHub (handleKeyDown acme_plugin 1000 ''btn'')
          \<lparr>contextId = ''btn'', settings = acme_settings, refreshTimer = Some 0,
           keyDownTime = Some 1000\<rparr>)
         \<lparr>actions := (actions (handleKeyDown acme_plugin 1000 ''btn''))
            (''btn'' \<mapsto> \<lparr>contextId = ''btn'', settings = acme_settings,
                refreshTimer = Some 0, keyDownTime = None\<rparr>)\<rparr>
   \<and> actions acme_plugin ''other'' = None
   \<and> handleKeyUp acme_plugin 1200 ''other'' = acme_plugin"
proof -
  let ?p = "handleKeyDown acme_plugin 1000 ''btn''"
  let ?i = "\<lparr>contextId = ''btn'', settings = acme_settings, refreshTimer = Some 0,
           keyDownTime = Some (1000::int)\<rparr>"
  have a: "actions ?p ''btn'' = Some ?i"
    by (simp add: pressed_plugin_fields)
  have n: "actions acme_plugin ''other'' = None"
    by (simp add: acme_plugin_fields)
  show ?thesis
    using a n
      C3_press_end_classification [of ?p "''btn''" 1200 ?i]
      C3_press_end_classification [of ?p "''btn''" 1600 ?i]
      C3_press_end_classification [of acme_plugin "''other''" 1200]
    by (simp add: Let_def)
qed

text \<open>
  C3 as the specification states it fails: the button has appeared and no press-begin
  was recorded for it, and a press-end, at a clock reading of 1700000000000 ms,
  is not ignored: it opens the url.
\<close>

theorem C3_press_end_without_press_begin_opens_url:
  "map_option keyDownTime (actions acme_plugin ''btn'') = Some None
   \<and> opened_urls (trace acme_plugin) = []
   \<and> opened_urls (trace (handleKeyUp acme_plugin 1700000000000 ''btn'')) =
       [''https://github.com/acme/widgets/actions'']"
  by (simp add: handleKeyUp_def Let_def or_number_def LONG_PRESS_THRESHOLD_def
      acme_plugin_fields acme_plugin_trace openGitHub_def acme_settings_def
      getWorkflowRuns_options_def template_string_def)

text \<open>
  C4. The code at the input the claim names: a second appear event for a context that
  is already active. Two interval timers are then live for the one context, the
  session records only the second, and after the disappear event the first is still
  live although the context has no session.
\<close>

theorem C4_double_appear_leaks_timer:
  "timers (run acme_parse fresh_plugin double_appear) =
     [(0, ''btn'', 30000), (1, ''btn'', 30000)]
   \<and> map_option refreshTimer (actions (run acme_parse fresh_plugin double_appear) ''btn'')
       = Some (Some 1)
   \<and> timers (run acme_parse fresh_plugin
        (double_appear @ [Message 2 (WillDisappear ''btn'')])) = [(0, ''btn'', 30000)]
   \<and> actions (run acme_parse fresh_plugin
        (double_appear @ [Message 2 (WillDisappear ''btn'')])) ''btn'' = None"
  by (simp add: double_appear_def run_defs fresh_plugin_def acme_settings_def handler_defs)

text \<open>
  C5. On a settings-changed event for an active session whose timer handle \<open>h\<close> the
  runtime issued before: \<^verbatim>\<open>clearInterval\<close> is called once, on \<open>h\<close>, and \<open>h\<close> firing
  afterwards does nothing; \<^verbatim>\<open>setInterval\<close> is called once, with the interval of
  the new settings; the session holds the new settings and the new handle; the one
  refresh of the handler issues the request of the new settings (none when their
  credential, owner or repository is absent or empty), and so does a refresh started
  after the handler.
\<close>

theorem C5_settings_changed_swaps_timer:
  assumes "actions p c = Some instance"
      and "refreshTimer instance = Some h"
      and "h < nextHandle p"
  shows "(let p' = handleDidReceiveSettings p c new_settings;
              delay = (case refreshInterval new_settings of
                         None \<Rightarrow> 60 | Some n \<Rightarrow> if n = 0 then 60 else n) * 1000;
              fetches =
                (case (githubToken new_settings, owner new_settings, repo new_settings) of
                   (Some token, Some own, Some rep) \<Rightarrow>
                     if token = [] \<or> own = [] \<or> rep = [] then []
                     else [getWorkflowRuns_options token own rep (workflow new_settings)]
                 | _ \<Rightarrow> [])
          in timer_calls (trace p') =
               timer_calls (trace p) @
                 [ClearIntervalCall h, SetIntervalCall (nextHandle p) c delay]
           \<and> timers p' = filter (\<lambda>t. fst t \<noteq> h) (timers p) @ [(nextHandle p, c, delay)]
           \<and> step parse p' (TimerFired h) = p'
           \<and> actions p' c =
               Some (instance\<lparr>settings := new_settings,
                              refreshTimer := Some (nextHandle p)\<rparr>)
           \<and> requests_of (trace p') = requests_of (trace p) @ fetches
           \<and> length (suspended p') = length (suspended p) + length fetches
           \<and> requests_of (trace (refreshStatus p' c)) = requests_of (trace p') @ fetches)"
proof -
  let ?p' = "handleDidReceiveSettings p c new_settings"
  let ?delay = "(case refreshInterval new_settings of
                   None \<Rightarrow> 60 | Some n \<Rightarrow> if n = 0 then 60 else n) * 1000"
  let ?fetches =
    "case (githubToken new_settings, owner new_settings, repo new_settings) of
       (Some token, Some own, Some rep) \<Rightarrow>
         if token = [] \<or> own = [] \<or> rep = [] then []
         else [getWorkflowRuns_options token own rep (workflow new_settings)]
     | _ \<Rightarrow> []"
  note eq = handleDidReceiveSettings_eq [OF assms(1,2), of new_settings]
  have t: "timers ?p' = filter (\<lambda>t. fst t \<noteq> h) (timers p) @ [(nextHandle p, c, ?delay)]"
    by (simp add: eq)
  have a: "actions ?p' c =
      Some (instance\<lparr>settings := new_settings, refreshTimer := Some (nextHandle p)\<rparr>)"
    by (simp add: eq)
  have f: "find (\<lambda>t. fst t = h) (timers ?p') = None"
    using assms(3) by (simp add: t find_None_iff)
  have s: "step parse ?p' (TimerFired h) = ?p'"
    by (simp add: step_def f)
  have tc: "timer_calls (trace ?p') = timer_calls (trace p) @
      [ClearIntervalCall h, SetIntervalCall (nextHandle p) c ?delay]"
    by (simp add: eq)
  have r1: "requests_of (trace ?p') = requests_of (trace p) @ ?fetches"
    by (simp add: eq refreshStatus_def Let_def split: option.split)
  have su: "length (suspended ?p') = length (suspended p) + length ?fetches"
    by (simp add: eq refreshStatus_def Let_def split: option.split)
  have r2: "requests_of (trace (refreshStatus ?p' c)) = requests_of (trace ?p') @ ?fetches"
    using a by (simp add: refreshStatus_def [of ?p'] Let_def split: option.split)
  show ?thesis
    unfolding Let_def using tc t s a r1 su r2 by blast
qed

text \<open>
  The theorem of C5 on the button with its first timer: new settings with an interval
  of 10 seconds leave the one timer of handle 1 and a delay of 10000 ms.
\<close>

theorem C5_settings_changed_swaps_timer_witness:
  "actions acme_plugin ''btn'' =
     Some \<lparr>contextId = ''btn'', settings = acme_settings, refreshTimer = Some 0,
           keyDownTime = None\<rparr>
   \<and> 0 < nextHandle acme_plugin
   \<and> timers (handleDidReceiveSettings acme_plugin ''btn''
        (acme_settings\<lparr>refreshInterval := Some 10\<rparr>)) = [(1, ''btn'', 10000)]
   \<and> timer_calls (trace (handleDidReceiveSettings acme_plugin ''btn''
        (acme_settings\<lparr>refreshInterval := Some 10\<rparr>))) =
       [SetIntervalCall 0 ''btn'' 30000, ClearIntervalCall 0,
        SetIntervalCall 1 ''btn'' 10000]
   \<and> step acme_parse (handleDidReceiveSettings acme_plugin ''btn''
        (acme_settings\<lparr>refreshInterval := Some 10\<rparr>)) (TimerFired 0) =
       handleDidReceiveSettings acme_plugin ''btn''
        (acme_settings\<lparr>refreshInterval := Some 10\<rparr>)"
  using C5_settings_changed_swaps_timer [of acme_plugin "''btn''"
      "\<lparr>contextId = ''btn'', settings = acme_settings, refreshTimer = Some 0,
           keyDownTime = None\<rparr>" 0 "acme_settings\<lparr>refreshInterval := Some 10\<rparr>"
      acme_parse]
  by (simp add: acme_plugin_fields acme_plugin_trace Let_def)

text \<open>
  C6. When the provider answers 200 with a body that parses to zero run records
  (a total count of 0, or an empty run list), the promise resolves (nothing is thrown)
  with classification unknown, the error text "No workflow runs found", and the url of
  the repository's general actions run list.
\<close>

theorem C6_zero_runs_result:
  assumes "parse body = Some runs"
      and "total_count runs = 0 \<or> workflow_runs runs = []"
  shows "fetchWorkflowStatus parse (Responded 200 body) token own rep wfl =
           Inr \<lparr>status = Unknown,
                name = (case wfl of Some w \<Rightarrow> if w \<noteq> [] then w else ''No runs''
                                   | None \<Rightarrow> ''No runs''),
                url = ''https://github.com/'' @ own @ ''/'' @ rep @ ''/actions'',
                branch = [], updatedAt = None,
                error = Some ''No workflow runs found''\<rparr>"
  using assms
  by (auto simp add: fetchWorkflowStatus_def fetchWorkflowStatus_try_def
      getWorkflowRuns_def)

text \<open>The theorem of C6 at an answer with a total count of 0 and no runs.\<close>

theorem C6_zero_runs_result_witness:
  "acme_parse ''none'' = Some \<lparr>total_count = 0, workflow_runs = []\<rparr>
   \<and> fetchWorkflowStatus acme_parse (Responded 200 ''none'') ''t0ken'' ''acme''
        ''widgets'' None =
       Inr \<lparr>status = Unknown, name = ''No runs'',
            url = ''https://github.com/acme/widgets/actions'',
            branch = [], updatedAt = None,
            error = Some ''No workflow runs found''\<rparr>"
proof -
  have h: "acme_parse ''none'' = Some \<lparr>total_count = 0, workflow_runs = []\<rparr>"
    by (simp add: acme_parse_def)
  show ?thesis
    using h C6_zero_runs_result [of acme_parse "''none''"
        "\<lparr>total_count = 0, workflow_runs = []\<rparr>" "''t0ken''" "''acme''" "''widgets''" None]
    by simp
qed

text \<open>
  C7. A refresh on an active session whose credential, owner or repository is absent
  or empty sends no request and leaves no refresh suspended; it is the display update
  to unknown with title "Configure", which on an open socket writes the image frame
  of unknown, when the cache holds one, and then the title frame "Configure", and
  nothing else. When all three are non-empty, the refresh sends the one request built
  from these settings and is left suspended on it.
\<close>

theorem C7_missing_settings_skip_fetch:
  assumes "actions p c = Some instance"
  shows "(githubToken (settings instance) = None \<or> githubToken (settings instance) = Some []
            \<or> owner (settings instance) = None \<or> owner (settings instance) = Some []
            \<or> repo (settings instance) = None \<or> repo (settings instance) = Some [] \<longrightarrow>
          refreshStatus p c = updateDisplay p c Unknown ''Configure''
          \<and> requests_of (trace (refreshStatus p c)) = requests_of (trace p)
          \<and> suspended (refreshStatus p c) = suspended p
          \<and> (websocket p = Some OPEN \<longrightarrow>
               frames_of (trace (refreshStatus p c)) =
                 frames_of (trace p) @
                   (case imagesCache p Unknown of
                      None \<Rightarrow> []
                    | Some img \<Rightarrow> if img \<noteq> [] then [SetImage c img 0] else []) @
                   [SetTitle c ''Configure'' 0]))
       \<and> (githubToken (settings instance) = Some token \<and> token \<noteq> []
            \<and> owner (settings instance) = Some own \<and> own \<noteq> []
            \<and> repo (settings instance) = Some rep \<and> rep \<noteq> [] \<longrightarrow>
          requests_of (trace (refreshStatus p c)) =
            requests_of (trace p) @
              [getWorkflowRuns_options token own rep (workflow (settings instance))]
          \<and> length (suspended (refreshStatus p c)) = Suc (length (suspended p)))"
proof -
  have skip: "refreshStatus p c = updateDisplay p c Unknown ''Configure''"
    if "githubToken (settings instance) = None \<or> githubToken (settings instance) = Some []
          \<or> owner (settings instance) = None \<or> owner (settings instance) = Some []
          \<or> repo (settings instance) = None \<or> repo (settings instance) = Some []"
    using assms that by (auto simp add: refreshStatus_def Let_def split: option.split)
  have shown: "frames_of (trace (updateDisplay p c Unknown ''Configure'')) =
      frames_of (trace p) @
        (case imagesCache p Unknown of
           None \<Rightarrow> []
         | Some img \<Rightarrow> if img \<noteq> [] then [SetImage c img 0] else []) @
        [SetTitle c ''Configure'' 0]"
    if "websocket p = Some OPEN"
    using that by (simp add: updateDisplay_trace split: option.split)
  have fetch: "requests_of (trace (refreshStatus p c)) =
        requests_of (trace p) @
          [getWorkflowRuns_options token own rep (workflow (settings instance))]
      \<and> length (suspended (refreshStatus p c)) = Suc (length (suspended p))"
    if "githubToken (settings instance) = Some token \<and> token \<noteq> []
          \<and> owner (settings instance) = Some own \<and> own \<noteq> []
          \<and> repo (settings instance) = Some rep \<and> rep \<noteq> []"
    using assms that by (simp add: refreshStatus_def Let_def)
  show ?thesis
    using skip shown fetch by simp
qed

text \<open>
  The theorem of C7 on the button that appeared without settings (empty strings), on
  the button that appeared with the empty object (absent fields), and on the button
  with the acme settings, whose refresh adds a second request to the first.
\<close>

theorem C7_missing_settings_skip_fetch_witness:
  "actions unconfigured_plugin ''btn'' =
     Some \<lparr>contextId = ''btn'', settings = getDefaultSettings, refreshTimer = Some 0,
           keyDownTime = None\<rparr>
   \<and> githubToken getDefaultSettings = Some []
   \<and> websocket unconfigured_plugin = Some OPEN
   \<and> requests_of (trace (refreshStatus unconfigured_plugin ''btn'')) = []
   \<and> frames_of (trace (refreshStatus unconfigured_plugin ''btn'')) =
       [SetImage ''btn'' ''data:unknown'' 0, SetTitle ''btn'' ''Configure'' 0,
        SetImage ''btn'' ''data:unknown'' 0, SetTitle ''btn'' ''Configure'' 0]
   \<and> actions blank_plugin ''btn'' =
       Some \<lparr>contextId = ''btn'', settings = blank_settings, refreshTimer = Some 0,
             keyDownTime = None\<rparr>
   \<and> githubToken blank_settings = None
   \<and> websocket blank_plugin = Some OPEN
   \<and> frames_of (trace (refreshStatus blank_plugin ''btn'')) =
       [SetImage ''btn'' ''data:unknown'' 0, SetTitle ''btn'' ''Configure'' 0,
        SetImage ''btn'' ''data:unknown'' 0, SetTitle ''btn'' ''Configure'' 0]
   \<and> actions acme_plugin ''btn'' =
       Some \<lparr>contextId = ''btn'', settings = acme_settings, refreshTimer = Some 0,
             keyDownTime = None\<rparr>
   \<and> githubToken acme_settings = Some ''t0ken'' \<and> owner acme_settings = Some ''acme''
   \<and> repo acme_settings = Some ''widgets''
   \<and> requests_of (trace (refreshStatus acme_plugin ''btn'')) =
       [getWorkflowRuns_options ''t0ken'' ''acme'' ''widgets'' None,
        getWorkflowRuns_options ''t0ken'' ''acme'' ''widgets'' None]"
proof -
  let ?u = "\<lparr>contextId = ''btn'', settings = getDefaultSettings, refreshTimer = Some 0,
           keyDownTime = None\<rparr>"
  let ?b = "\<lparr>contextId = ''btn'', settings = blank_settings, refreshTimer = Some 0,
           keyDownTime = None\<rparr>"
  let ?a = "\<lparr>contextId = ''btn'', settings = acme_settings, refreshTimer = Some 0,
           keyDownTime = None\<rparr>"
  have au: "actions unconfigured_plugin ''btn'' = Some ?u"
    and wu: "websocket unconfigured_plugin = Some OPEN"
    by (simp_all add: unconfigured_plugin_fields)
  have su: "githubToken (settings ?u) = Some []"
    by (simp add: getDefaultSettings_def)
  have ab: "actions blank_plugin ''btn'' = Some ?b"
    and wb: "websocket blank_plugin = Some OPEN"
    by (simp_all add: blank_plugin_fields)
  have sb: "githubToken (settings ?b) = None"
    by (simp add: blank_settings_def)
  have aa: "actions acme_plugin ''btn'' = Some ?a"
    by (simp add: acme_plugin_fields)
  have sa: "githubToken (settings ?a) = Some ''t0ken'' \<and> ''t0ken'' \<noteq> []
      \<and> owner (settings ?a) = Some ''acme'' \<and> ''acme'' \<noteq> []
      \<and> repo (settings ?a) = Some ''widgets'' \<and> ''widgets'' \<noteq> []"
    by (simp add: acme_settings_def)
  have U: "requests_of (trace (refreshStatus unconfigured_plugin ''btn'')) =
        requests_of (trace unconfigured_plugin)
      \<and> frames_of (trace (refreshStatus unconfigured_plugin ''btn'')) =
          frames_of (trace unconfigured_plugin) @
            (case imagesCache unconfigured_plugin Unknown of
               None \<Rightarrow> []
             | Some img \<Rightarrow> if img \<noteq> [] then [SetImage ''btn'' img 0] else []) @
            [SetTitle ''btn'' ''Configure'' 0]"
    using C7_missing_settings_skip_fetch [OF au, of "[]" "[]" "[]"] su wu by blast
  have B: "frames_of (trace (refreshStatus blank_plugin ''btn'')) =
          frames_of (trace blank_plugin) @
            (case imagesCache blank_plugin Unknown of
               None \<Rightarrow> []
             | Some img \<Rightarrow> if img \<noteq> [] then [SetImage ''btn'' img 0] else []) @
            [SetTitle ''btn'' ''Configure'' 0]"
    using C7_missing_settings_skip_fetch [OF ab, of "[]" "[]" "[]"] sb wb by blast
  have A: "requests_of (trace (refreshStatus acme_plugin ''btn'')) =
        requests_of (trace acme_plugin) @
          [getWorkflowRuns_options ''t0ken'' ''acme'' ''widgets''
             (workflow (settings ?a))]"
    using C7_missing_settings_skip_fetch [OF aa, of "''t0ken''" "''acme''" "''widgets''"] sa
    by blast
  show ?thesis
    using au wu ab wb aa
    by (simp add: U B A acme_plugin_trace unconfigured_plugin_fields blank_plugin_fields
        getDefaultSettings_def acme_settings_def blank_settings_def)
qed

text \<open>
  C8, as amended. On an open socket, a press-end of 500 ms or more on an active
  session writes exactly one frame, an open-url frame whose url is built from the
  session's settings: the actions page of owner and repository, each rendered as
  "undefined" when absent, followed by /workflows/ and the workflow when one is
  configured. It sends no request and leaves no refresh suspended. A shorter
  press-end is a refresh, and writes no open-url frame.
\<close>

theorem C8_long_press_opens_settings_url:
  assumes "actions p c = Some instance"
      and "websocket p = Some OPEN"
  shows "(now - (case keyDownTime instance of None \<Rightarrow> 0 | Some t \<Rightarrow> t) \<ge> 500 \<longrightarrow>
            frames_of (trace (handleKeyUp p now c)) =
              frames_of (trace p) @
                [OpenUrl (''https://github.com/''
                   @ (case owner (settings instance) of
                        None \<Rightarrow> ''undefined'' | Some own \<Rightarrow> own)
                   @ ''/''
                   @ (case repo (settings instance) of
                        None \<Rightarrow> ''undefined'' | Some rep \<Rightarrow> rep)
                   @ ''/actions''
                   @ (case workflow (settings instance) of
                        None \<Rightarrow> []
                      | Some w \<Rightarrow> if w \<noteq> [] then ''/workflows/'' @ w else []))]
          \<and> requests_of (trace (handleKeyUp p now c)) = requests_of (trace p)
          \<and> suspended (handleKeyUp p now c) = suspended p)
       \<and> (now - (case keyDownTime instance of None \<Rightarrow> 0 | Some t \<Rightarrow> t) < 500 \<longrightarrow>
            handleKeyUp p now c =
              (refreshStatus p c)
                \<lparr>actions := (actions p)(c \<mapsto> instance\<lparr>keyDownTime := None\<rparr>)\<rparr>
          \<and> opened_urls (trace (handleKeyUp p now c)) = opened_urls (trace p))"
  using assms
  by (auto simp add: handleKeyUp_def Let_def or_number_def LONG_PRESS_THRESHOLD_def
      openGitHub_def template_string_def split: option.split)

text \<open>
  The theorem of C8 on the pressed button: released after 600 ms, the one new frame
  opens the actions page of acme/widgets; released after 200 ms, no url is opened.
  On the button that appeared with the empty object for its settings, the frame of
  the long press opens the actions page of undefined/undefined.
\<close>

theorem C8_long_press_opens_settings_url_witness:
  "actions (handleKeyDown acme_plugin 1000 ''btn'') ''btn'' =
     Some \<lparr>contextId = ''btn'', settings = acme_settings, refreshTimer = Some 0,
           keyDownTime = Some 1000\<rparr>
   \<and> websocket (handleKeyDown acme_plugin 1000 ''btn'') = Some OPEN
   \<and> (1600::int) - 1000 \<ge> 500
   \<and> frames_of (trace (handleKeyUp (handleKeyDown acme_plugin 1000 ''btn'') 1600 ''btn'')) =
       [SetImage ''btn'' ''data:pending'' 0, SetTitle ''btn'' ''Loading...'' 0,
        OpenUrl ''https://github.com/acme/widgets/actions'']
   \<and> (1200::int) - 1000 < 500
   \<and> opened_urls
        (trace (handleKeyUp (handleKeyDown acme_plugin 1000 ''btn'') 1200 ''btn'')) = []
   \<and> actions (handleKeyDown blank_plugin 1000 ''btn'') ''btn'' =
       Some \<lparr>contextId = ''btn'', settings = blank_settings, refreshTimer = Some 0,
             keyDownTime = Some 1000\<rparr>
   \<and> websocket (handleKeyDown blank_plugin 1000 ''btn'') = Some OPEN
   \<and> frames_of (trace (handleKeyUp (handleKeyDown blank_plugin 1000 ''btn'') 1600 ''btn'')) =
       [SetImage ''btn'' ''data:unknown'' 0, SetTitle ''btn'' ''Configure'' 0,
        OpenUrl ''https://github.com/undefined/undefined/actions'']"
proof -
  let ?p = "handleKeyDown acme_plugin 1000 ''btn''"
  let ?i = "\<lparr>contextId = ''btn'', settings = acme_settings, refreshTimer = Some 0,
           keyDownTime = Some (1000::int)\<rparr>"
  let ?q = "handleKeyDown blank_plugin 1000 ''btn''"
  let ?j = "\<lparr>contextId = ''btn'', settings = blank_settings, refreshTimer = Some 0,
           keyDownTime = Some (1000::int)\<rparr>"
  have a: "actions ?p ''btn'' = Some ?i"
    by (simp add: pressed_plugin_fields)
  have w: "websocket ?p = Some OPEN"
    by (simp add: pressed_plugin_fields)
  have b: "actions ?q ''btn'' = Some ?j"
    by (simp add: pressed_blank_fields)
  have v: "websocket ?q = Some OPEN"
    by (simp add: pressed_blank_fields)
  show ?thesis
    using a w b v
      C8_long_press_opens_settings_url [OF a w, of 1600]
      C8_long_press_opens_settings_url [OF a w, of 1200]
      C8_long_press_opens_settings_url [OF b v, of 1600]
    by (simp add: pressed_plugin_fields pressed_blank_fields acme_plugin_trace
        blank_plugin_fields acme_settings_def blank_settings_def)
qed

text \<open>
  C8 as the specification states it fails. The button appears, its fetch resolves
  with run 42, whose url is the canonical url of the StatusResult, and the key is
  held for 600 ms: the url opened is the actions page of the repository, not the url
  of the run.
\<close>

theorem C8_opened_url_is_not_result_url:
  "opened_urls (trace (run acme_parse fresh_plugin acme_session)) =
     [''https://github.com/acme/widgets/actions'']
   \<and> map_sum id url (fetchWorkflowStatus acme_parse (Responded 200 ''one'') ''t0ken''
        ''acme'' ''widgets'' None) =
       Inr ''https://github.com/acme/widgets/actions/runs/42''"
  by (simp add: acme_session_def run_defs fresh_plugin_def acme_settings_def handler_defs)

text \<open>
  C9, as amended. The delay handed to \<^verbatim>\<open>setInterval\<close> for a session is its
  configured refresh interval times 1000 ms, and 60000 ms when the interval is absent
  or 0, as it is when the button appears without settings. The code enforces no
  minimum: whatever non-zero interval is configured is passed on.
\<close>

theorem C9_timer_delay_from_interval:
  "(actions p c = Some instance \<longrightarrow>
      timers (startRefreshTimer p c) =
        timers p @ [(nextHandle p, c,
          (case refreshInterval (settings instance) of
             None \<Rightarrow> 60
           | Some n \<Rightarrow> if n = 0 then 60 else n) * 1000)]
      \<and> map_option refreshTimer (actions (startRefreshTimer p c) c)
          = Some (Some (nextHandle p)))
   \<and> timers (handleWillAppear p c None) = timers p @ [(nextHandle p, c, 60 * 1000)]
   \<and> timers (handleWillAppear p c (Some s)) =
        timers p @ [(nextHandle p, c,
          (case refreshInterval s of
             None \<Rightarrow> 60
           | Some n \<Rightarrow> if n = 0 then 60 else n) * 1000)]"
  by (simp add: startRefreshTimer_eq handleWillAppear_def Let_def getDefaultSettings_def)

text \<open>
  The theorem of C9 on a plugin whose map holds a session of 30 seconds that has no
  timer yet: the timer started has a delay of 30000 ms.
\<close>

theorem C9_timer_delay_from_interval_witness:
  "actions (fresh_plugin\<lparr>actions := [''btn'' \<mapsto>
       \<lparr>contextId = ''btn'', settings = acme_settings, refreshTimer = None,
        keyDownTime = None\<rparr>]\<rparr>) ''btn'' =
     Some \<lparr>contextId = ''btn'', settings = acme_settings, refreshTimer = None,
           keyDownTime = None\<rparr>
   \<and> timers (startRefreshTimer (fresh_plugin\<lparr>actions := [''btn'' \<mapsto>
       \<lparr>contextId = ''btn'', settings = acme_settings, refreshTimer = None,
        keyDownTime = None\<rparr>]\<rparr>) ''btn'') = [(0, ''btn'', 30000)]"
  using C9_timer_delay_from_interval [of
      "fresh_plugin\<lparr>actions := [''btn'' \<mapsto>
         \<lparr>contextId = ''btn'', settings = acme_settings, refreshTimer = None,
          keyDownTime = None\<rparr>]\<rparr>" "''btn''"
      "\<lparr>contextId = ''btn'', settings = acme_settings, refreshTimer = None,
        keyDownTime = None\<rparr>"]
  by (simp add: fresh_plugin_def acme_settings_def)

text \<open>
  C9 as the specification states it fails: with a configured interval of -5 the timer
  of the session is started with a delay of -5000 ms, which is below one second.
\<close>

theorem C9_negative_interval_below_one_second:
  "timers (handleWillAppear fresh_plugin ''btn''
      (Some (acme_settings\<lparr>refreshInterval := Some (- 5)\<rparr>))) = [(0, ''btn'', - 5000)]
   \<and> (- 5000 :: int) < 1 * 1000"
  by (simp add: fresh_plugin_def acme_settings_def handler_defs)

text \<open>
  C10. A refresh on an active session whose credential, owner and repository are all
  non-empty, on an open socket, first writes the display update of pending (the image
  frame of pending, when the cache holds one, then the title frame "Loading..."),
  then sends the request, and is left suspended. Its fetch resolves on every outcome;
  when it does, in whatever state with an open socket the plugin then is, the display
  update of the result is written: the image frame of the result's status and the
  title frame, "Error" when the result carries an error, and otherwise "Success",
  "Failed", "Running" or "Unknown" by the status. A refresh whose fetch settles next
  has written exactly these two display updates, in that order.
\<close>

theorem C10_refresh_two_display_updates:
  assumes "actions p c = Some instance"
      and "githubToken (settings instance) = Some token" and "token \<noteq> []"
      and "owner (settings instance) = Some own" and "own \<noteq> []"
      and "repo (settings instance) = Some rep" and "rep \<noteq> []"
      and "websocket p = Some OPEN"
  shows "(\<exists>result. fetchWorkflowStatus parse oc token own rep
                     (workflow (settings instance)) = Inr result)
       \<and> trace (refreshStatus p c) =
           trace p @
             (case imagesCache p Pending of
                None \<Rightarrow> []
              | Some img \<Rightarrow> if img \<noteq> [] then [WsSend (SetImage c img 0)] else []) @
             [WsSend (SetTitle c ''Loading...'' 0),
              HttpsRequest (getWorkflowRuns_options token own rep
                (workflow (settings instance)))]
       \<and> suspended (refreshStatus p c) =
           suspended p @
             [\<lparr>s_context = c, s_githubToken = token, s_owner = own, s_repo = rep,
               s_workflow = workflow (settings instance)\<rparr>]
       \<and> (\<forall>result.
            fetchWorkflowStatus parse oc token own rep (workflow (settings instance))
              = Inr result \<longrightarrow>
            (websocket q = Some OPEN \<longrightarrow>
               frames_of (trace (refreshStatus_resume parse q
                 \<lparr>s_context = c, s_githubToken = token, s_owner = own, s_repo = rep,
                  s_workflow = workflow (settings instance)\<rparr> oc)) =
                 frames_of (trace q) @
                   (case imagesCache q (status result) of
                      None \<Rightarrow> []
                    | Some img \<Rightarrow> if img \<noteq> [] then [SetImage c img 0] else []) @
                   [SetTitle c
                      (if error result \<noteq> None then ''Error''
                       else (case status result of
                               Success \<Rightarrow> ''Success'' | Failure \<Rightarrow> ''Failed''
                             | Pending \<Rightarrow> ''Running'' | Unknown \<Rightarrow> ''Unknown'')) 0])
          \<and> frames_of (trace (step parse (refreshStatus p c)
                 (FetchSettled (length (suspended p)) oc))) =
               frames_of (trace p) @
                 (case imagesCache p Pending of
                    None \<Rightarrow> []
                  | Some img \<Rightarrow> if img \<noteq> [] then [SetImage c img 0] else []) @
                 [SetTitle c ''Loading...'' 0] @
                 (case imagesCache p (status result) of
                    None \<Rightarrow> []
                  | Some img \<Rightarrow> if img \<noteq> [] then [SetImage c img 0] else []) @
                 [SetTitle c
                    (if error result \<noteq> None then ''Error''
                     else (case status result of
                             Success \<Rightarrow> ''Success'' | Failure \<Rightarrow> ''Failed''
                           | Pending \<Rightarrow> ''Running'' | Unknown \<Rightarrow> ''Unknown'')) 0]
          \<and> suspended (step parse (refreshStatus p c)
                 (FetchSettled (length (suspended p)) oc)) = suspended p)"
proof -
  let ?wf = "workflow (settings instance)"
  let ?k = "\<lparr>s_context = c, s_githubToken = token, s_owner = own, s_repo = rep,
             s_workflow = ?wf\<rparr>"
  let ?p1 = "updateDisplay p c Pending ''Loading...''"
  let ?req = "HttpsRequest (getWorkflowRuns_options token own rep ?wf)"
  let ?title = "\<lambda>result. if error result \<noteq> None then ''Error''
      else (case status result of
              Success \<Rightarrow> ''Success'' | Failure \<Rightarrow> ''Failed''
            | Pending \<Rightarrow> ''Running'' | Unknown \<Rightarrow> ''Unknown'')"
  have resolves: "\<exists>result. fetchWorkflowStatus parse oc token own rep ?wf = Inr result"
    by (rule fetch_resolves)
  have first: "refreshStatus p c =
      ?p1\<lparr>suspended := suspended p @ [?k], trace := trace ?p1 @ [?req]\<rparr>"
    using assms by (simp add: refreshStatus_def Let_def)
  have tr: "trace (refreshStatus p c) =
      trace p @
        (case imagesCache p Pending of
           None \<Rightarrow> []
         | Some img \<Rightarrow> if img \<noteq> [] then [WsSend (SetImage c img 0)] else []) @
        [WsSend (SetTitle c ''Loading...'' 0), ?req]"
    using assms(8) by (simp add: first updateDisplay_trace split: option.split)
  have su: "suspended (refreshStatus p c) = suspended p @ [?k]"
    by (simp add: first)
  have resume: "refreshStatus_resume parse q' ?k oc =
      updateDisplay q' c (status result) (?title result)"
    if "fetchWorkflowStatus parse oc token own rep ?wf = Inr result" for q' result
  proof -
    have "fetchWorkflowStatus parse oc (s_githubToken ?k) (s_owner ?k) (s_repo ?k)
        (s_workflow ?k) = Inr result"
      using that by simp
    from refreshStatus_resume_eq [OF this, of q'] show ?thesis
      by (simp add: formatStatusText_def split: WorkflowStatus.split)
  qed
  have second: "frames_of (trace (refreshStatus_resume parse q ?k oc)) =
      frames_of (trace q) @
        (case imagesCache q (status result) of
           None \<Rightarrow> []
         | Some img \<Rightarrow> if img \<noteq> [] then [SetImage c img 0] else []) @
        [SetTitle c (?title result) 0]"
    if "fetchWorkflowStatus parse oc token own rep ?wf = Inr result"
      and "websocket q = Some OPEN" for result
    using that(2) by (simp add: resume [OF that(1)] updateDisplay_trace split: option.split)
  have settled: "step parse (refreshStatus p c) (FetchSettled (length (suspended p)) oc) =
      updateDisplay (?p1\<lparr>trace := trace ?p1 @ [?req]\<rparr>) c (status result) (?title result)"
    if "fetchWorkflowStatus parse oc token own rep ?wf = Inr result" for result
    by (simp add: first step_def resume [OF that] suspended_update_same)
  have third: "frames_of (trace (step parse (refreshStatus p c)
        (FetchSettled (length (suspended p)) oc))) =
      frames_of (trace p) @
        (case imagesCache p Pending of
           None \<Rightarrow> []
         | Some img \<Rightarrow> if img \<noteq> [] then [SetImage c img 0] else []) @
        [SetTitle c ''Loading...'' 0] @
        (case imagesCache p (status result) of
           None \<Rightarrow> []
         | Some img \<Rightarrow> if img \<noteq> [] then [SetImage c img 0] else []) @
        [SetTitle c (?title result) 0]"
    if "fetchWorkflowStatus parse oc token own rep ?wf = Inr result" for result
    using assms(8)
    by (simp add: settled [OF that] updateDisplay_trace split: option.split)
  have fourth: "suspended (step parse (refreshStatus p c)
        (FetchSettled (length (suspended p)) oc)) = suspended p"
    if "fetchWorkflowStatus parse oc token own rep ?wf = Inr result" for result
    by (simp add: settled [OF that])
  show ?thesis
    using resolves tr su second third fourth by blast
qed

text \<open>
  The theorem of C10 on the button with the acme settings, at an answer with one
  successful run: the refresh and its settlement add the frames of "Loading..." and of
  "Success" to the two frames the button wrote when it appeared.
\<close>

theorem C10_refresh_two_display_updates_witness:
  "actions acme_plugin ''btn'' =
     Some \<lparr>contextId = ''btn'', settings = acme_settings, refreshTimer = Some 0,
           keyDownTime = None\<rparr>
   \<and> githubToken acme_settings = Some ''t0ken'' \<and> owner acme_settings = Some ''acme''
   \<and> repo acme_settings = Some ''widgets''
   \<and> websocket acme_plugin = Some OPEN
   \<and> fetchWorkflowStatus acme_parse (Responded 200 ''one'') ''t0ken'' ''acme''
        ''widgets'' None =
       Inr \<lparr>status = Success, name = ''CI'',
            url = ''https://github.com/acme/widgets/actions/runs/42'',
            branch = ''main'', updatedAt = None, error = None\<rparr>
   \<and> frames_of (trace (step acme_parse (refreshStatus acme_plugin ''btn'')
        (FetchSettled 1 (Responded 200 ''one'')))) =
       [SetImage ''btn'' ''data:pending'' 0, SetTitle ''btn'' ''Loading...'' 0,
        SetImage ''btn'' ''data:pending'' 0, SetTitle ''btn'' ''Loading...'' 0,
        SetImage ''btn'' ''data:success'' 0, SetTitle ''btn'' ''Success'' 0]"
proof -
  let ?i = "\<lparr>contextId = ''btn'', settings = acme_settings, refreshTimer = Some 0,
           keyDownTime = None\<rparr>"
  let ?r = "\<lparr>status = Success, name = ''CI'',
            url = ''https://github.com/acme/widgets/actions/runs/42'',
            branch = ''main'', updatedAt = None, error = None\<rparr>"
  have a: "actions acme_plugin ''btn'' = Some ?i"
    by (simp add: acme_plugin_fields)
  have s: "githubToken (settings ?i) = Some ''t0ken''" "owner (settings ?i) = Some ''acme''"
    "repo (settings ?i) = Some ''widgets''" "workflow (settings ?i) = None"
    by (simp_all add: acme_settings_def)
  have w: "websocket acme_plugin = Some OPEN"
    by (simp add: acme_plugin_fields)
  have f: "fetchWorkflowStatus acme_parse (Responded 200 ''one'') ''t0ken'' ''acme''
      ''widgets'' None = Inr ?r"
    by (simp add: fetchWorkflowStatus_def fetchWorkflowStatus_try_def getWorkflowRuns_def
        acme_parse_def acme_run_def mapGitHubStatus_def)
  have n: "length (suspended acme_plugin) = 1"
    by (simp add: acme_plugin_fields)
  have cache: "imagesCache acme_plugin Pending = Some ''data:pending''"
    "imagesCache acme_plugin Success = Some ''data:success''"
    by (simp_all add: acme_plugin_fields)
  from C10_refresh_two_display_updates [OF a s(1) _ s(2) _ s(3) _ w,
      of acme_parse "Responded 200 ''one''" acme_plugin]
  have "frames_of (trace (step acme_parse (refreshStatus acme_plugin ''btn'')
        (FetchSettled (length (suspended acme_plugin)) (Responded 200 ''one'')))) =
      frames_of (trace acme_plugin) @
        (case imagesCache acme_plugin Pending of
           None \<Rightarrow> []
         | Some img \<Rightarrow> if img \<noteq> [] then [SetImage ''btn'' img 0] else []) @
        [SetTitle ''btn'' ''Loading...'' 0] @
        (case imagesCache acme_plugin (status ?r) of
           None \<Rightarrow> []
         | Some img \<Rightarrow> if img \<noteq> [] then [SetImage ''btn'' img 0] else []) @
        [SetTitle ''btn''
           (if error ?r \<noteq> None then ''Error''
            else (case status ?r of
                    Success \<Rightarrow> ''Success'' | Failure \<Rightarrow> ''Failed''
                  | Pending \<Rightarrow> ''Running'' | Unknown \<Rightarrow> ''Unknown'')) 0]"
    using f s(4) by simp
  then show ?thesis
    using a s w f by (simp add: n cache acme_plugin_trace)
qed

end
